theory Spec2Isabelle
  imports Main
begin

section \<open>KubernetesApply validation (pkg/apis/core/v1alpha1, kubernetesapply types)\<close>

text \<open>
  A field path is the list of its elements: \<open>field.NewPath("spec.applyCmd")\<close> is the
  one-element path, \<open>Child\<close> appends an element. The root handed to
  \<open>validateAsSubfield\<close> may be nil, and \<open>Child\<close> on a nil path starts a new one.
\<close>

type_synonym Path = "string list"

definition NewPath :: "string \<Rightarrow> Path" where
  "NewPath n = [n]"

definition Child :: "Path option \<Rightarrow> string \<Rightarrow> Path" where
  "Child root n = (case root of None \<Rightarrow> [n] | Some p \<Rightarrow> p @ [n])"

record KubernetesApplyCmd =
  Args :: "string list"
  Dir :: string
  Env :: "string list"

text \<open>
  The three constructors of \<open>field.Error\<close> that \<open>Validate\<close> calls, each with the
  arguments of the call.
\<close>

datatype FieldError =
    NotSupported Path string "string list"
  | Invalid Path KubernetesApplyCmd string
  | Required Path string

type_synonym ErrorList = "FieldError list"

type_synonym KubernetesDiscoveryStrategy = string

definition KubernetesDiscoveryStrategyDefault :: KubernetesDiscoveryStrategy where
  "KubernetesDiscoveryStrategyDefault = ''default''"

definition KubernetesDiscoveryStrategySelectorsOnly :: KubernetesDiscoveryStrategy where
  "KubernetesDiscoveryStrategySelectorsOnly = ''selectors-only''"

text \<open>The fields of \<open>KubernetesApplySpec\<close> that \<open>Default\<close> and \<open>Validate\<close> read or write.\<close>

record KubernetesApplySpec =
  YAML :: string
  ImageMaps :: "string list"
  DiscoveryStrategy :: KubernetesDiscoveryStrategy
  ApplyCmd :: "KubernetesApplyCmd option"
  DeleteCmd :: "KubernetesApplyCmd option"
  Cluster :: string

definition validateAsSubfield :: "KubernetesApplyCmd \<Rightarrow> Path option \<Rightarrow> ErrorList" where
  "validateAsSubfield c rootField =
     (if length (Args c) = 0
      then [Required (Child rootField ''args'') ''args cannot be empty'']
      else [])"

definition strategyErrors :: "KubernetesDiscoveryStrategy \<Rightarrow> ErrorList" where
  "strategyErrors kdStrategy =
     (if \<not> (kdStrategy = '''' \<or>
             kdStrategy = KubernetesDiscoveryStrategyDefault \<or>
             kdStrategy = KubernetesDiscoveryStrategySelectorsOnly)
      then [NotSupported (NewPath ''spec.discoveryStrategy'') kdStrategy
              [KubernetesDiscoveryStrategyDefault, KubernetesDiscoveryStrategySelectorsOnly]]
      else [])"

definition Validate :: "KubernetesApplySpec \<Rightarrow> ErrorList" where
  "Validate spec =
     strategyErrors (DiscoveryStrategy spec) @
     (if YAML spec \<noteq> '''' then
        (case ApplyCmd spec of
           Some c \<Rightarrow>
             [Invalid (NewPath ''spec.applyCmd'') c
                ''must specify exactly ONE of .spec.yaml or .spec.applyCmd'']
         | None \<Rightarrow> [])
      else
        (case ApplyCmd spec of
           Some c \<Rightarrow> validateAsSubfield c (Some (NewPath ''spec.applyCmd''))
         | None \<Rightarrow>
             [Required (NewPath ''spec.yaml'')
                ''must specify exactly ONE of .spec.yaml or .spec.applyCmd'']))"

text \<open>
  The claim's condition, in its words: the strategy is empty, "default" or
  "selectors-only"; exactly one of YAML (a non-empty string) and ApplyCmd (non-nil) is
  provided; and the Args of ApplyCmd are non-empty when ApplyCmd is the one provided.
\<close>

definition strategySupported :: "KubernetesApplySpec \<Rightarrow> bool" where
  "strategySupported spec =
     (DiscoveryStrategy spec = '''' \<or> DiscoveryStrategy spec = ''default'' \<or>
      DiscoveryStrategy spec = ''selectors-only'')"

definition exactlyOneProvided :: "KubernetesApplySpec \<Rightarrow> bool" where
  "exactlyOneProvided spec = ((YAML spec \<noteq> '''') \<noteq> (ApplyCmd spec \<noteq> None))"

definition applyCmdArgsGiven :: "KubernetesApplySpec \<Rightarrow> bool" where
  "applyCmdArgsGiven spec =
     (case ApplyCmd spec of None \<Rightarrow> True | Some c \<Rightarrow> YAML spec \<noteq> '''' \<or> Args c \<noteq> [])"

section \<open>Validation: the accepted specs\<close>

lemma strategyErrors_empty_iff:
  "strategyErrors s = [] \<longleftrightarrow> (s = '''' \<or> s = ''default'' \<or> s = ''selectors-only'')"
  by (simp add: strategyErrors_def KubernetesDiscoveryStrategyDefault_def
      KubernetesDiscoveryStrategySelectorsOnly_def)

lemma validateAsSubfield_empty_iff:
  "validateAsSubfield c r = [] \<longleftrightarrow> Args c \<noteq> []"
  by (simp add: validateAsSubfield_def)

text \<open>
  C10. \<open>Validate\<close> returns the empty error list exactly when the discovery strategy is
  empty, "default" or "selectors-only", exactly one of YAML and ApplyCmd is provided, and
  ApplyCmd (when it is the one provided) has at least one argument; on every other spec
  the list has at least one error.
\<close>

theorem Validate_empty_iff:
  "(Validate spec = [] \<longleftrightarrow>
      strategySupported spec \<and> exactlyOneProvided spec \<and> applyCmdArgsGiven spec) \<and>
   (\<not> (strategySupported spec \<and> exactlyOneProvided spec \<and> applyCmdArgsGiven spec) \<longrightarrow>
      1 \<le> length (Validate spec))"
proof -
  have accepted: "Validate spec = [] \<longleftrightarrow>
      strategySupported spec \<and> exactlyOneProvided spec \<and> applyCmdArgsGiven spec"
  proof (cases "ApplyCmd spec")
    case None
    then show ?thesis
      by (simp add: Validate_def strategyErrors_empty_iff strategySupported_def
          exactlyOneProvided_def applyCmdArgsGiven_def)
  next
    case (Some c)
    then show ?thesis
      by (auto simp add: Validate_def strategyErrors_empty_iff validateAsSubfield_empty_iff
          strategySupported_def exactlyOneProvided_def applyCmdArgsGiven_def)
  qed
  have "Validate spec \<noteq> [] \<Longrightarrow> 1 \<le> length (Validate spec)"
    by (cases "Validate spec") simp_all
  with accepted show ?thesis by blast
qed

theorem Validate_empty_iff_witness:
  "Validate \<lparr>YAML = '''', ImageMaps = [], DiscoveryStrategy = ''default'',
             ApplyCmd = Some \<lparr>Args = [''helm'', ''install''], Dir = '''', Env = []\<rparr>,
             DeleteCmd = None, Cluster = ''default''\<rparr> = [] \<and>
   1 \<le> length (Validate \<lparr>YAML = ''kind: Pod'', ImageMaps = [], DiscoveryStrategy = ''default'',
             ApplyCmd = Some \<lparr>Args = [''helm'', ''install''], Dir = '''', Env = []\<rparr>,
             DeleteCmd = None, Cluster = ''default''\<rparr>) \<and>
   1 \<le> length (Validate \<lparr>YAML = '''', ImageMaps = [], DiscoveryStrategy = ''default'',
             ApplyCmd = Some \<lparr>Args = [], Dir = '''', Env = []\<rparr>,
             DeleteCmd = None, Cluster = ''default''\<rparr>)"
  using Validate_empty_iff
    [of "\<lparr>YAML = '''', ImageMaps = [], DiscoveryStrategy = ''default'',
             ApplyCmd = Some \<lparr>Args = [''helm'', ''install''], Dir = '''', Env = []\<rparr>,
             DeleteCmd = None, Cluster = ''default''\<rparr>"]
    Validate_empty_iff
    [of "\<lparr>YAML = ''kind: Pod'', ImageMaps = [], DiscoveryStrategy = ''default'',
             ApplyCmd = Some \<lparr>Args = [''helm'', ''install''], Dir = '''', Env = []\<rparr>,
             DeleteCmd = None, Cluster = ''default''\<rparr>"]
    Validate_empty_iff
    [of "\<lparr>YAML = '''', ImageMaps = [], DiscoveryStrategy = ''default'',
             ApplyCmd = Some \<lparr>Args = [], Dir = '''', Env = []\<rparr>,
             DeleteCmd = None, Cluster = ''default''\<rparr>"]
  by (simp add: strategySupported_def exactlyOneProvided_def applyCmdArgsGiven_def)

end
